theory Spec2Isabelle
  imports Complex_Main "HOL-Library.Multiset"
begin

section \<open>The top-up deployments service\<close>

text \<open>
  A shallow embedding of \<^verbatim>\<open>TopUpDeploymentsService\<close>
  (\<^verbatim>\<open>apps/api/src/deployment/services/top-up-deployments/top-up-deployments.service.ts\<close>).
  An \<^verbatim>\<open>async\<close> method becomes a function from the world before the call to its outcome
  (\<open>Inl\<close> a rejection, \<open>Inr\<close> the resolved value) and the world after it. The world
  records what the method did to its collaborators: the calls it made and the records it logged.
\<close>

subsection \<open>Numbers and \<^verbatim>\<open>parseFloat\<close>\<close>

text \<open>
  A JavaScript number is \<^verbatim>\<open>NaN\<close>, an infinity, or a finite value. \<open>Num q\<close> stands for
  the Number value for the mathematical value \<open>q\<close>, as the language defines it: \<open>q\<close>
  rounded to a double, which is a zero for \<open>q\<close> close enough to 0 and an infinity for
  \<open>q\<close> beyond the range of the doubles. A numeric literal and \<^verbatim>\<open>parseFloat\<close> round the
  same mathematical value in the same way, so the rounding is left out: equal mathematical
  values stand for equal numbers (the converse does not hold), \<open>Num q\<close> is never
  \<^verbatim>\<open>NaN\<close>, and it is negative or a negative zero exactly when \<open>q < 0\<close>. \<open>Num 0\<close> stands
  for both zeros. \<open>PosInfinity\<close> and \<open>NegInfinity\<close> are what the literal
  \<^verbatim>\<open>Infinity\<close> parses to.
\<close>

datatype number = NaN | PosInfinity | NegInfinity | Num rat

text \<open>
  A string is a list of code units below 256, each standing for the character of that code
  (so \<open>CHR 0xA0\<close> is the no-break space); a string with a code unit above 255 has no
  counterpart here. Below 256 the white space and line terminators that \<^verbatim>\<open>parseFloat\<close>
  trims are the tab, the line feed, the vertical tab, the form feed, the carriage return, the
  space and the no-break space.
\<close>

definition is_ws :: "char \<Rightarrow> bool" where
  "is_ws c = (c \<in> set [CHR 0x09, CHR 0x0A, CHR 0x0B, CHR 0x0C, CHR 0x0D, CHR '' '', CHR 0xA0])"

definition is_digit :: "char \<Rightarrow> bool" where
  "is_digit c = (c \<in> set ''0123456789'')"

definition digit_val :: "char \<Rightarrow> nat" where
  "digit_val c = of_char c - 48"

definition digits_val :: "string \<Rightarrow> nat" where
  "digits_val ds = foldl (\<lambda>n c. 10 * n + digit_val c) 0 ds"

text \<open>The value of an optional \<^verbatim>\<open>ExponentPart\<close> at the head of a string: \<^verbatim>\<open>e\<close> or
  \<^verbatim>\<open>E\<close>, an optional sign, digits. An indicator with no digit after it is not an exponent.\<close>

definition exponent_part :: "string \<Rightarrow> int" where
  "exponent_part r =
     (if take 1 r = ''e'' \<or> take 1 r = ''E'' then
        (if take 1 (drop 1 r) = ''-'' then - int (digits_val (takeWhile is_digit (drop 2 r)))
         else if take 1 (drop 1 r) = ''+'' then int (digits_val (takeWhile is_digit (drop 2 r)))
         else int (digits_val (takeWhile is_digit (drop 1 r))))
      else 0)"

definition scale10 :: "rat \<Rightarrow> int \<Rightarrow> rat" where
  "scale10 m e = (if 0 \<le> e then m * 10 ^ nat e else m / 10 ^ nat (- e))"

text \<open>
  \<^verbatim>\<open>parseFloat\<close> of the language: leading white space is dropped, the longest prefix that is
  a \<^verbatim>\<open>StrDecimalLiteral\<close> is read, and the result is \<^verbatim>\<open>NaN\<close> when there is none. It never
  throws.
\<close>

definition parseFloat :: "string \<Rightarrow> number" where
  "parseFloat inputString =
     (let trimmed = dropWhile is_ws inputString;
          negative = (take 1 trimmed = ''-'');
          unsigned = (if take 1 trimmed = ''-'' \<or> take 1 trimmed = ''+'' then drop 1 trimmed else trimmed)
      in if take 8 unsigned = ''Infinity'' then (if negative then NegInfinity else PosInfinity)
         else
           (let ip = takeWhile is_digit unsigned;
                r1 = dropWhile is_digit unsigned;
                has_point = (take 1 r1 = ''.'');
                fp = (if has_point then takeWhile is_digit (drop 1 r1) else []);
                r2 = (if has_point then dropWhile is_digit (drop 1 r1) else r1)
            in if ip = [] \<and> fp = [] then NaN
               else Num ((if negative then - 1 else 1)
                         * scale10 (of_nat (digits_val (ip @ fp))) (exponent_part r2 - int (length fp)))))"

subsection \<open>Data\<close>

text \<open>
  Modelled from the spec: the types of \<^verbatim>\<open>@akashnetwork/http-sdk\<close> are not among the
  sources. They are given as far as the service reads them: a coin
  \<^verbatim>\<open>{ denom, amount }\<close> with the amount a string, a deployment grant with
  \<^verbatim>\<open>granter\<close>, \<^verbatim>\<open>grantee\<close> and \<^verbatim>\<open>authorization.spend_limit\<close>, and a fee allowance
  with the list \<^verbatim>\<open>allowance.spend_limit\<close>.
\<close>

datatype Coin = Coin (coin_denom: string) (coin_amount: string)

datatype Authorization = Authorization (spend_limit: Coin)

datatype DeploymentAllowance =
  DeploymentAllowance (granter: string) (grantee: string) (authorization: Authorization)

datatype Allowance = Allowance (fee_spend_limit: "Coin list")

datatype FeeAllowance = FeeAllowance (allowance: Allowance)

record Balances =
  denom :: string
  feesLimit :: number
  deploymentLimit :: number
  balance :: number
  isManaged :: bool

datatype OwnerType = CUSTODIAL | MANAGED

text \<open>
  Anything can be thrown: an error object with its name and stack, a primitive value, or
  \<^verbatim>\<open>null\<close> or \<^verbatim>\<open>undefined\<close>. The handler reads \<^verbatim>\<open>error.stack\<close>: the stack of an error
  object, \<^verbatim>\<open>undefined\<close> of a primitive, and a \<^verbatim>\<open>TypeError\<close> thrown in its turn of
  \<^verbatim>\<open>null\<close> and \<^verbatim>\<open>undefined\<close>.
\<close>

datatype error = Error (error_name: string) (error_stack: string) | Primitive string | Nullish

definition stack_TypeError :: error where
  "stack_TypeError = Error ''TypeError'' ''TypeError: cannot read properties of null (reading stack)''"

fun stack_of :: "error \<Rightarrow> error + string option" where
  "stack_of (Error n st) = Inr (Some st)"
| "stack_of (Primitive v) = Inr None"
| "stack_of Nullish = Inl stack_TypeError"

datatype DrainingDeploymentOutput = DrainingDeploymentOutput string

datatype sentry_event = SentryEvent string

text \<open>The three injected wallets, and the side of a grant query.\<close>

datatype wallet = managedMasterWalletService | uaktMasterWalletService | usdtMasterWalletService

datatype side = side_granter | side_grantee

subsection \<open>Collaborators and the world\<close>

text \<open>
  The collaborators are parameters. A call may reject or throw, those of the error sink
  (\<^verbatim>\<open>toEvent\<close>, \<^verbatim>\<open>captureEvent\<close>) and \<^verbatim>\<open>logger.error\<close> of the handler included. The grant
  registry answers a query with its sequence of page fetches, each one a page of grants or a
  failure. \<^verbatim>\<open>logger.debug\<close> writes its record and returns.
\<close>

record services =
  getFirstAddress :: "wallet \<Rightarrow> error + string"
  grantPages :: "side \<Rightarrow> string \<Rightarrow> nat \<Rightarrow> (error + DeploymentAllowance list) list"
  getFeeAllowanceForGranterAndGrantee :: "string \<Rightarrow> string \<Rightarrow> error + FeeAllowance"
  getBalance :: "string \<Rightarrow> string \<Rightarrow> error + Coin"
  toEvent :: "error \<Rightarrow> error + sentry_event"
  captureEvent :: "sentry_event \<Rightarrow> error + string"
  logger_error :: "string option \<Rightarrow> string \<Rightarrow> error + unit"

datatype call =
    GetFirstAddress wallet
  | FetchGrantsPage side string nat
  | GetFeeAllowance string string
  | GetBalance string string
  | CaptureEvent sentry_event

datatype log_entry =
    BALANCES_COLLECTED string string Balances
  | RETRIEVING_DRAINING_DEPLOYMENTS string
  | CALCULATING_TOP_UP_AMOUNT DrainingDeploymentOutput
  | VALIDATING_TOP_UP_AMOUNT number Balances
  | TOP_UP_FAILED "string option" string

record world =
  calls :: "call list"
  logs :: "log_entry list"
  unhandled :: "error list"

definition called :: "call \<Rightarrow> world \<Rightarrow> world" where
  "called c w = w\<lparr>calls := calls w @ [c]\<rparr>"

definition logged :: "log_entry \<Rightarrow> world \<Rightarrow> world" where
  "logged l w = w\<lparr>logs := logs w @ [l]\<rparr>"

subsection \<open>Balance collection\<close>

definition CONCURRENCY :: nat where
  "CONCURRENCY = 10"

definition UNLIMITED_FEES_MANAGED_BALANCE :: number where
  "UNLIMITED_FEES_MANAGED_BALANCE = Num 1000000"

definition retrieveFeesLimit ::
  "services \<Rightarrow> string \<Rightarrow> string \<Rightarrow> string \<Rightarrow> world \<Rightarrow> (error + number) \<times> world" where
  "retrieveFeesLimit svc gr ge dn w =
     (let w1 = called (GetFeeAllowance gr ge) w in
      case getFeeAllowanceForGranterAndGrantee svc gr ge of
        Inl e \<Rightarrow> (Inl e, w1)
      | Inr feesAllowance \<Rightarrow>
          (case find (\<lambda>limit. coin_denom limit = dn) (fee_spend_limit (allowance feesAllowance)) of
             Some feesSpendLimit \<Rightarrow> (Inr (parseFloat (coin_amount feesSpendLimit)), w1)
           | None \<Rightarrow> (Inr (Num 0), w1)))"

text \<open>\<^verbatim>\<open>sides\<close> is the pair as the source builds it, reversed in place for a managed owner.\<close>

definition sides_of :: "OwnerType \<Rightarrow> DeploymentAllowance \<Rightarrow> string list" where
  "sides_of ownerType grant =
     (if ownerType = MANAGED then rev [granter grant, grantee grant]
      else [granter grant, grantee grant])"

definition collectWalletBalances ::
  "services \<Rightarrow> OwnerType \<Rightarrow> DeploymentAllowance \<Rightarrow> world \<Rightarrow> (error + Balances) \<times> world" where
  "collectWalletBalances svc ownerType grant w =
     (let dn = coin_denom (spend_limit (authorization grant));
          dl = parseFloat (coin_amount (spend_limit (authorization grant)));
          sides = sides_of ownerType grant;
          managed = (ownerType = MANAGED)
      in case (if managed then (Inr UNLIMITED_FEES_MANAGED_BALANCE, w)
               else retrieveFeesLimit svc (sides ! 0) (sides ! 1) dn w) of
           (Inl e, w1) \<Rightarrow> (Inl e, w1)
         | (Inr fl, w1) \<Rightarrow>
             (let w2 = called (GetBalance (sides ! 0) dn) w1 in
              case getBalance svc (sides ! 0) dn of
                Inl e \<Rightarrow> (Inl e, w2)
              | Inr bal \<Rightarrow>
                  (Inr \<lparr>denom = dn, feesLimit = fl, deploymentLimit = dl,
                        balance = parseFloat (coin_amount bal), isManaged = managed\<rparr>, w2)))"

subsection \<open>Per-grant processing\<close>

text \<open>The three hooks, as shipped: each logs that it is not implemented and returns.\<close>

definition retrieveDrainingDeployments ::
  "string \<Rightarrow> world \<Rightarrow> (error + DrainingDeploymentOutput list) \<times> world" where
  "retrieveDrainingDeployments owner w = (Inr [], logged (RETRIEVING_DRAINING_DEPLOYMENTS owner) w)"

definition calculateTopUpAmount ::
  "DrainingDeploymentOutput \<Rightarrow> world \<Rightarrow> (error + number) \<times> world" where
  "calculateTopUpAmount deployment w = (Inr (Num 0), logged (CALCULATING_TOP_UP_AMOUNT deployment) w)"

definition validateTopUpAmount :: "number \<Rightarrow> Balances \<Rightarrow> world \<Rightarrow> world" where
  "validateTopUpAmount amount balances w = logged (VALIDATING_TOP_UP_AMOUNT amount balances) w"

text \<open>
  The body of the \<^verbatim>\<open>async deployment => ...\<close> arrow of \<^verbatim>\<open>topUpForGrant\<close>, and what
  becomes of a promise nobody awaits: a rejection of it reaches no handler.
\<close>

definition topUpDeployment ::
  "Balances \<Rightarrow> DrainingDeploymentOutput \<Rightarrow> world \<Rightarrow> (error + unit) \<times> world" where
  "topUpDeployment balances deployment w =
     (case calculateTopUpAmount deployment w of
        (Inl e, w1) \<Rightarrow> (Inl e, w1)
      | (Inr topUpAmount, w1) \<Rightarrow> (Inr (), validateTopUpAmount topUpAmount balances w1))"

definition not_awaited :: "(world \<Rightarrow> (error + unit) \<times> world) \<Rightarrow> world \<Rightarrow> world" where
  "not_awaited p w =
     (case p w of
        (Inl e, w1) \<Rightarrow> w1\<lparr>unhandled := unhandled w1 @ [e]\<rparr>
      | (Inr _, w1) \<Rightarrow> w1)"

definition topUpForGrant ::
  "services \<Rightarrow> OwnerType \<Rightarrow> DeploymentAllowance \<Rightarrow> world \<Rightarrow> (error + unit) \<times> world" where
  "topUpForGrant svc ownerType grant w =
     (let owner = (if ownerType = CUSTODIAL then granter grant else grantee grant) in
      case collectWalletBalances svc ownerType grant w of
        (Inl e, w1) \<Rightarrow> (Inl e, w1)
      | (Inr balances, w1) \<Rightarrow>
          (let w2 = logged (BALANCES_COLLECTED owner (grantee grant) balances) w1 in
           case retrieveDrainingDeployments owner w2 of
             (Inl e, w3) \<Rightarrow> (Inl e, w3)
           | (Inr drainingDeployments, w3) \<Rightarrow>
               (Inr (), fold (\<lambda>deployment. not_awaited (topUpDeployment balances deployment))
                          drainingDeployments w3)))"








subsection \<open>The error boundary\<close>

text \<open>
  The \<^verbatim>\<open>catch\<close> block is not guarded: in the order of the source it calls
  \<^verbatim>\<open>toEvent\<close>, calls \<^verbatim>\<open>captureEvent\<close>, reads \<^verbatim>\<open>error.stack\<close> and calls
  \<^verbatim>\<open>logger.error\<close>, and what any of the four throws is thrown by the handler.
\<close>

definition execWithErrorHandler ::
  "services \<Rightarrow> (world \<Rightarrow> (error + unit) \<times> world) \<Rightarrow> world \<Rightarrow> (error + unit) \<times> world" where
  "execWithErrorHandler svc cb w =
     (case cb w of
        (Inr _, w1) \<Rightarrow> (Inr (), w1)
      | (Inl e, w1) \<Rightarrow>
          (case toEvent svc e of
             Inl e1 \<Rightarrow> (Inl e1, w1)
           | Inr ev \<Rightarrow>
               (let w2 = called (CaptureEvent ev) w1 in
                case captureEvent svc ev of
                  Inl e2 \<Rightarrow> (Inl e2, w2)
                | Inr sentryEventId \<Rightarrow>
                    (case stack_of e of
                       Inl e3 \<Rightarrow> (Inl e3, w2)
                     | Inr st \<Rightarrow>
                         (case logger_error svc st sentryEventId of
                            Inl e4 \<Rightarrow> (Inl e4, w2)
                          | Inr _ \<Rightarrow> (Inr (), logged (TOP_UP_FAILED st sentryEventId) w2))))))"

subsection \<open>Pages and wallets\<close>

text \<open>
  \<^verbatim>\<open>Promise.all\<close> over promises that are all started: every one of them runs to its end,
  also when another has rejected; the result is the list of their values, or the rejection
  when there is one. The promises run here one after the other, in the order of the array.
  The program starts them all and interleaves them at their \<^verbatim>\<open>await\<close>s, in an order that
  depends on when the collaborators answer. No promise reads what another has written (each
  only appends to the calls and to the log), so every schedule gives each promise the same
  outcome and the same records; the order in which the records of different promises follow
  each other in the log and in the calls is the one thing that is not the program's, and
  nothing below is stated about it.
\<close>

fun promise_all :: "(world \<Rightarrow> (error + 'a) \<times> world) list \<Rightarrow> world \<Rightarrow> (error + 'a list) \<times> world" where
  "promise_all [] w = (Inr [], w)"
| "promise_all (p # ps) w =
     (case p w of
        (r, w1) \<Rightarrow>
          (case promise_all ps w1 of
             (rs, w2) \<Rightarrow>
               (case r of
                  Inl e \<Rightarrow> (Inl e, w2)
                | Inr v \<Rightarrow> (case rs of Inl e \<Rightarrow> (Inl e, w2) | Inr vs \<Rightarrow> (Inr (v # vs), w2)))))"

text \<open>The callback the service gives to the pagination: one page of grants.\<close>

definition processPage ::
  "services \<Rightarrow> OwnerType \<Rightarrow> DeploymentAllowance list \<Rightarrow> world \<Rightarrow> (error + unit list) \<times> world" where
  "processPage svc ownerType grants w =
     promise_all (map (\<lambda>grant. execWithErrorHandler svc (topUpForGrant svc ownerType grant)) grants) w"

text \<open>
  Modelled from the spec: \<^verbatim>\<open>AllowanceHttpService.paginateDeploymentGrants\<close> of
  \<^verbatim>\<open>@akashnetwork/http-sdk\<close> is not among the sources. It calls the callback once per page,
  in registry order, each page after the callback of the page before has returned, until the
  registry is exhausted; a failing fetch ends it with that failure, and so does a failing
  callback.
\<close>

fun paginate_pages ::
  "call \<Rightarrow> (error + 'g) list \<Rightarrow> ('g \<Rightarrow> world \<Rightarrow> (error + 'a) \<times> world) \<Rightarrow> world
     \<Rightarrow> (error + unit) \<times> world" where
  "paginate_pages c [] cb w = (Inr (), w)"
| "paginate_pages c (Inl e # rest) cb w = (Inl e, called c w)"
| "paginate_pages c (Inr grants # rest) cb w =
     (case cb grants (called c w) of
        (Inl e, w1) \<Rightarrow> (Inl e, w1)
      | (Inr _, w1) \<Rightarrow> paginate_pages c rest cb w1)"

definition paginateDeploymentGrants ::
  "services \<Rightarrow> side \<Rightarrow> string \<Rightarrow> nat \<Rightarrow> (DeploymentAllowance list \<Rightarrow> world \<Rightarrow> (error + 'a) \<times> world)
     \<Rightarrow> world \<Rightarrow> (error + unit) \<times> world" where
  "paginateDeploymentGrants svc sd address limit cb w =
     paginate_pages (FetchGrantsPage sd address limit) (grantPages svc sd address limit) cb w"

definition topUpCustodialWallet :: "services \<Rightarrow> wallet \<Rightarrow> world \<Rightarrow> (error + unit) \<times> world" where
  "topUpCustodialWallet svc wlt w =
     (case getFirstAddress svc wlt of
        Inl e \<Rightarrow> (Inl e, called (GetFirstAddress wlt) w)
      | Inr address \<Rightarrow>
          paginateDeploymentGrants svc side_grantee address CONCURRENCY (processPage svc CUSTODIAL)
            (called (GetFirstAddress wlt) w))"

definition topUpDeployments :: "services \<Rightarrow> world \<Rightarrow> (error + unit) \<times> world" where
  "topUpDeployments svc w =
     (let wallets = [uaktMasterWalletService, usdtMasterWalletService] in
      case promise_all (map (topUpCustodialWallet svc) wallets) w of
        (Inl e, w1) \<Rightarrow> (Inl e, w1)
      | (Inr _, w1) \<Rightarrow>
          (case getFirstAddress svc managedMasterWalletService of
             Inl e \<Rightarrow> (Inl e, called (GetFirstAddress managedMasterWalletService) w1)
           | Inr address \<Rightarrow>
               paginateDeploymentGrants svc side_granter address CONCURRENCY (processPage svc MANAGED)
                 (called (GetFirstAddress managedMasterWalletService) w1)))"

subsection \<open>Observations\<close>

text \<open>What the theorems read off a grant and off the world.\<close>

definition grant_denom :: "DeploymentAllowance \<Rightarrow> string" where
  "grant_denom grant = coin_denom (spend_limit (authorization grant))"

definition grant_amount :: "DeploymentAllowance \<Rightarrow> string" where
  "grant_amount grant = coin_amount (spend_limit (authorization grant))"

definition owner_of :: "OwnerType \<Rightarrow> DeploymentAllowance \<Rightarrow> string" where
  "owner_of ownerType grant = (if ownerType = CUSTODIAL then granter grant else grantee grant)"

text \<open>The fee-allowance lookups among the calls made so far.\<close>

fun is_fee_lookup :: "call \<Rightarrow> bool" where
  "is_fee_lookup (GetFeeAllowance _ _) = True"
| "is_fee_lookup _ = False"

definition fee_lookups :: "world \<Rightarrow> nat" where
  "fee_lookups w = length (filter is_fee_lookup (calls w))"

text \<open>
  A grant is through when its last record is written: the deployment lookup on the way that
  succeeds, \<^verbatim>\<open>TOP_UP_FAILED\<close> on the way that fails.
\<close>

fun is_outcome :: "log_entry \<Rightarrow> bool" where
  "is_outcome (RETRIEVING_DRAINING_DEPLOYMENTS _) = True"
| "is_outcome (TOP_UP_FAILED _ _) = True"
| "is_outcome _ = False"

definition completions :: "world \<Rightarrow> nat" where
  "completions w = length (filter is_outcome (logs w))"

text \<open>The records that the two policy hooks write when they are called.\<close>

fun is_policy_record :: "log_entry \<Rightarrow> bool" where
  "is_policy_record (CALCULATING_TOP_UP_AMOUNT _) = True"
| "is_policy_record (VALIDATING_TOP_UP_AMOUNT _ _) = True"
| "is_policy_record _ = False"

definition policy_records :: "world \<Rightarrow> log_entry list" where
  "policy_records w = filter is_policy_record (logs w)"

text \<open>
  A string with no numeric prefix: after the leading white space and one optional sign there
  is neither a digit, nor a point followed by a digit, nor \<^verbatim>\<open>Infinity\<close>. So are
  \<^verbatim>\<open>abc\<close>, \<^verbatim>\<open>-abc\<close>, the empty string and a lone point. And a string of decimal digits,
  the form a coin amount has on the chain.
\<close>

fun strip_sign :: "string \<Rightarrow> string" where
  "strip_sign [] = []"
| "strip_sign (c # cs) = (if c = CHR ''-'' \<or> c = CHR ''+'' then cs else c # cs)"

fun starts_unsigned_literal :: "string \<Rightarrow> bool" where
  "starts_unsigned_literal [] = False"
| "starts_unsigned_literal (c # cs) =
     (is_digit c
      \<or> (c = CHR ''.'' \<and> (case cs of [] \<Rightarrow> False | d # _ \<Rightarrow> is_digit d))
      \<or> take 8 (c # cs) = ''Infinity'')"

definition no_numeric_prefix :: "string \<Rightarrow> bool" where
  "no_numeric_prefix s = (\<not> starts_unsigned_literal (strip_sign (dropWhile is_ws s)))"

definition unsigned_decimal :: "string \<Rightarrow> bool" where
  "unsigned_decimal s = (s \<noteq> [] \<and> list_all is_digit s)"

definition is_negative :: "number \<Rightarrow> bool" where
  "is_negative x = (case x of NegInfinity \<Rightarrow> True | Num q \<Rightarrow> q < 0 | _ \<Rightarrow> False)"

subsection \<open>A ledger to run the service on\<close>

text \<open>
  The scenario of the specification: a grant from \<^verbatim>\<open>wallet1\<close> to \<^verbatim>\<open>owner1\<close> in
  \<^verbatim>\<open>uakt\<close>, a fee allowance in \<^verbatim>\<open>uakt\<close> and a balance, both given as the strings
  the ledger answers with. The address \<^verbatim>\<open>offline\<close> has no reachable balance.
\<close>

definition empty_world :: world where
  "empty_world = \<lparr>calls = [], logs = [], unhandled = []\<rparr>"

definition grant_of :: "string \<Rightarrow> string \<Rightarrow> string \<Rightarrow> string \<Rightarrow> DeploymentAllowance" where
  "grant_of gr ge dn amt = DeploymentAllowance gr ge (Authorization (Coin dn amt))"

definition unreachable :: error where
  "unreachable = Error ''RegistryUnavailable'' ''RegistryUnavailable: getBalance''"

definition example_services :: "string \<Rightarrow> string \<Rightarrow> services" where
  "example_services fee bal =
     \<lparr>getFirstAddress = (\<lambda>wlt. Inr ''master''),
      grantPages = (\<lambda>sd address limit. []),
      getFeeAllowanceForGranterAndGrantee = (\<lambda>gr ge. Inr (FeeAllowance (Allowance [Coin ''uakt'' fee]))),
      getBalance = (\<lambda>address dn. if address = ''offline'' then Inl unreachable else Inr (Coin dn bal)),
      toEvent = (\<lambda>e. Inr (SentryEvent ''top-up failed'')),
      captureEvent = (\<lambda>ev. Inr ''event-1''),
      logger_error = (\<lambda>st sentryEventId. Inr ())\<rparr>"

text \<open>The same ledger with an error sink that is down, and one whose balance fetch throws
  \<^verbatim>\<open>null\<close>.\<close>

definition sink_down :: error where
  "sink_down = Error ''SentryError'' ''SentryError: captureEvent''"

definition sink_down_services :: services where
  "sink_down_services = (example_services ''5'' ''42'')\<lparr>captureEvent := (\<lambda>ev. Inl sink_down)\<rparr>"

definition null_thrower_services :: services where
  "null_thrower_services = (example_services ''5'' ''42'')\<lparr>getBalance := (\<lambda>address dn. Inl Nullish)\<rparr>"

text \<open>
  The same ledger with a registry: each custodial wallet has two pages of grants, the first
  with a grant whose balance is unreachable; the managed wallet has one page.
\<close>

definition registry_services :: services where
  "registry_services =
     (example_services ''5'' ''42'')
       \<lparr>getFirstAddress :=
          (\<lambda>wlt. Inr (case wlt of managedMasterWalletService \<Rightarrow> ''managed''
                          | uaktMasterWalletService \<Rightarrow> ''uakt-wallet''
                          | usdtMasterWalletService \<Rightarrow> ''usdc-wallet'')),
        grantPages :=
          (\<lambda>sd address limit.
             if sd = side_grantee
             then [Inr [grant_of ''wallet1'' address ''uakt'' ''500'',
                        grant_of ''offline'' address ''uakt'' ''10''],
                   Inr [grant_of ''wallet3'' address ''uakt'' ''7''] ]
             else [Inr [grant_of address ''owner4'' ''uakt'' ''9''] ])\<rparr>"





text \<open>
  What the handler makes of an error when none of its own four steps throws: the event, the
  event id and the stack it logs. And a grant whose error, if it has one, the handler can
  report; the outcome of a grant does not depend on the world it starts in.
\<close>

definition report_of :: "services \<Rightarrow> error \<Rightarrow> (sentry_event \<times> string \<times> string option) option" where
  "report_of svc e =
     (case toEvent svc e of
        Inl e1 \<Rightarrow> None
      | Inr ev \<Rightarrow>
          (case captureEvent svc ev of
             Inl e2 \<Rightarrow> None
           | Inr sentryEventId \<Rightarrow>
               (case stack_of e of
                  Inl e3 \<Rightarrow> None
                | Inr st \<Rightarrow>
                    (case logger_error svc st sentryEventId of
                       Inl e4 \<Rightarrow> None
                     | Inr u \<Rightarrow> Some (ev, sentryEventId, st)))))"

definition reportable :: "services \<Rightarrow> OwnerType \<Rightarrow> DeploymentAllowance \<Rightarrow> bool" where
  "reportable svc ownerType grant =
     (case fst (topUpForGrant svc ownerType grant empty_world) of
        Inl e \<Rightarrow> report_of svc e \<noteq> None
      | Inr u \<Rightarrow> True)"

text \<open>The records one grant leaves when it is processed alone.\<close>

definition grant_records :: "services \<Rightarrow> OwnerType \<Rightarrow> DeploymentAllowance \<Rightarrow> log_entry list" where
  "grant_records svc ownerType grant =
     logs (snd (execWithErrorHandler svc (topUpForGrant svc ownerType grant) empty_world))"

section \<open>Properties\<close>

subsection \<open>Balance collection, step by step\<close>

lemma sides_of_simps:
  "sides_of CUSTODIAL grant ! 0 = granter grant"
  "sides_of CUSTODIAL grant ! 1 = grantee grant"
  "sides_of CUSTODIAL grant ! Suc 0 = grantee grant"
  "sides_of MANAGED grant ! 0 = grantee grant"
  "sides_of MANAGED grant ! 1 = granter grant"
  "sides_of MANAGED grant ! Suc 0 = granter grant"
  by (simp_all add: sides_of_def)

lemma called_simps:
  "calls (called c w) = calls w @ [c]"
  "logs (called c w) = logs w"
  "unhandled (called c w) = unhandled w"
  by (simp_all add: called_def)

lemma logged_simps:
  "calls (logged l w) = calls w"
  "logs (logged l w) = logs w @ [l]"
  "unhandled (logged l w) = unhandled w"
  by (simp_all add: logged_def)

lemma collectWalletBalances_MANAGED:
  "collectWalletBalances svc MANAGED grant w =
     (case getBalance svc (grantee grant) (grant_denom grant) of
        Inl e \<Rightarrow> (Inl e, called (GetBalance (grantee grant) (grant_denom grant)) w)
      | Inr bal \<Rightarrow>
          (Inr \<lparr>denom = grant_denom grant, feesLimit = UNLIMITED_FEES_MANAGED_BALANCE,
                deploymentLimit = parseFloat (grant_amount grant),
                balance = parseFloat (coin_amount bal), isManaged = True\<rparr>,
           called (GetBalance (grantee grant) (grant_denom grant)) w))"
  by (simp add: collectWalletBalances_def sides_of_simps grant_denom_def grant_amount_def Let_def split: sum.splits prod.splits)

lemma collectWalletBalances_CUSTODIAL:
  "collectWalletBalances svc CUSTODIAL grant w =
     (case retrieveFeesLimit svc (granter grant) (grantee grant) (grant_denom grant) w of
        (Inl e, w1) \<Rightarrow> (Inl e, w1)
      | (Inr fl, w1) \<Rightarrow>
          (case getBalance svc (granter grant) (grant_denom grant) of
             Inl e \<Rightarrow> (Inl e, called (GetBalance (granter grant) (grant_denom grant)) w1)
           | Inr bal \<Rightarrow>
               (Inr \<lparr>denom = grant_denom grant, feesLimit = fl,
                     deploymentLimit = parseFloat (grant_amount grant),
                     balance = parseFloat (coin_amount bal), isManaged = False\<rparr>,
                called (GetBalance (granter grant) (grant_denom grant)) w1)))"
  by (simp add: collectWalletBalances_def sides_of_simps grant_denom_def grant_amount_def Let_def split: sum.splits prod.splits)

lemma retrieveFeesLimit_eq:
  "retrieveFeesLimit svc gr ge dn w =
     (case getFeeAllowanceForGranterAndGrantee svc gr ge of
        Inl e \<Rightarrow> Inl e
      | Inr fa \<Rightarrow>
          Inr (case find (\<lambda>limit. coin_denom limit = dn) (fee_spend_limit (allowance fa)) of
                 None \<Rightarrow> Num 0
               | Some l \<Rightarrow> parseFloat (coin_amount l)),
      called (GetFeeAllowance gr ge) w)"
  by (simp add: retrieveFeesLimit_def Let_def split: sum.splits option.splits)

lemma fee_lookups_called:
  "fee_lookups (called c w) = fee_lookups w + (if is_fee_lookup c then 1 else 0)"
  by (simp add: fee_lookups_def called_simps)

text \<open>
  Claim C5. For a managed owner \<^verbatim>\<open>collectWalletBalances\<close> makes no fee-allowance lookup:
  its only call is the balance fetch. A record it returns has \<^verbatim>\<open>feesLimit\<close> equal to
  \<^verbatim>\<open>UNLIMITED_FEES_MANAGED_BALANCE\<close>, which is 1000000; it returns one whenever the balance
  fetch returns.
\<close>

theorem managed_skips_fee_lookup:
  "fee_lookups (snd (collectWalletBalances svc MANAGED grant w)) = fee_lookups w
   \<and> calls (snd (collectWalletBalances svc MANAGED grant w))
       = calls w @ [GetBalance (grantee grant) (grant_denom grant)]
   \<and> (\<forall>b. fst (collectWalletBalances svc MANAGED grant w) = Inr b
          \<longrightarrow> feesLimit b = UNLIMITED_FEES_MANAGED_BALANCE \<and> feesLimit b = Num 1000000 \<and> isManaged b)
   \<and> (\<forall>bal. getBalance svc (grantee grant) (grant_denom grant) = Inr bal
          \<longrightarrow> (\<exists>b. fst (collectWalletBalances svc MANAGED grant w) = Inr b))"
  by (auto simp: collectWalletBalances_MANAGED fee_lookups_called called_simps UNLIMITED_FEES_MANAGED_BALANCE_def split: sum.splits)

lemma find_no_match: "\<forall>x \<in> set xs. \<not> P x \<Longrightarrow> find P xs = None"
  by (simp add: find_None_iff)

text \<open>
  Claim C6. For a custodial owner whose fee allowance has no spend-limit entry for the
  grant's denom, the record that \<^verbatim>\<open>collectWalletBalances\<close> returns has
  \<^verbatim>\<open>feesLimit = 0\<close>; it returns that record whenever the balance fetch returns.
\<close>

theorem custodial_no_matching_denom:
  assumes "getFeeAllowanceForGranterAndGrantee svc (granter grant) (grantee grant) = Inr fa"
    and "\<forall>limit \<in> set (fee_spend_limit (allowance fa)). coin_denom limit \<noteq> grant_denom grant"
  shows "fst (collectWalletBalances svc CUSTODIAL grant w) =
     (case getBalance svc (granter grant) (grant_denom grant) of
        Inl e \<Rightarrow> Inl e
      | Inr bal \<Rightarrow> Inr \<lparr>denom = grant_denom grant, feesLimit = Num 0,
                deploymentLimit = parseFloat (grant_amount grant),
                balance = parseFloat (coin_amount bal), isManaged = False\<rparr>)"
  using assms
  by (simp add: collectWalletBalances_CUSTODIAL retrieveFeesLimit_eq find_no_match split: sum.splits)

text \<open>
  Claim C7. The first element of the pair of sides is the granter for a custodial owner and
  the grantee for a managed one. It is the address of the balance fetch and the granter of
  the fee lookup: a custodial owner gives the fee lookup for (granter, grantee) and then, when
  that returned, the balance fetch for the granter; a managed owner gives the balance fetch
  for the grantee and nothing else.
\<close>

theorem side_ordering:
  "calls (snd (collectWalletBalances svc ownerType grant w)) =
     calls w @
       (if ownerType = MANAGED then [GetBalance (sides_of ownerType grant ! 0) (grant_denom grant)]
        else GetFeeAllowance (sides_of ownerType grant ! 0) (sides_of ownerType grant ! 1)
             # (case getFeeAllowanceForGranterAndGrantee svc (granter grant) (grantee grant) of
                  Inl e \<Rightarrow> []
                | Inr fa \<Rightarrow> [GetBalance (sides_of ownerType grant ! 0) (grant_denom grant)]))
   \<and> sides_of CUSTODIAL grant ! 0 = granter grant
   \<and> sides_of MANAGED grant ! 0 = grantee grant"
  by (cases ownerType)
     (auto simp: collectWalletBalances_CUSTODIAL collectWalletBalances_MANAGED sides_of_simps
        retrieveFeesLimit_eq called_simps split: sum.splits option.splits)

subsection \<open>What \<^verbatim>\<open>parseFloat\<close> returns\<close>

lemma is_digit_cases:
  "is_digit c \<Longrightarrow> \<not> is_ws c \<and> c \<noteq> CHR ''-'' \<and> c \<noteq> CHR ''+'' \<and> c \<noteq> CHR ''I'' \<and> c \<noteq> CHR ''.''"
  by (auto simp: is_digit_def is_ws_def)

lemma takeWhile_digit_Nil: "takeWhile is_digit u = [] \<longleftrightarrow> (case u of [] \<Rightarrow> True | c # _ \<Rightarrow> \<not> is_digit c)"
  by (cases u) auto

lemma parseFloat_unsigned_NaN:
  assumes "unsigned = strip_sign trimmed"
  shows "(if take 8 unsigned = ''Infinity'' then x
          else (let ip = takeWhile is_digit unsigned;
                r1 = dropWhile is_digit unsigned;
                has_point = (take 1 r1 = ''.'');
                fp = (if has_point then takeWhile is_digit (drop 1 r1) else []);
                r2 = (if has_point then dropWhile is_digit (drop 1 r1) else r1)
            in if ip = [] \<and> fp = [] then NaN else Num (f ip fp r2))) = NaN
         \<longleftrightarrow> (if take 8 unsigned = ''Infinity'' then x = NaN else \<not> starts_unsigned_literal unsigned)"
proof (cases unsigned)
  case Nil
  then show ?thesis by simp
next
  case (Cons c cs)
  show ?thesis
  proof (cases "is_digit c")
    case True
    then show ?thesis using Cons by (auto simp: Let_def)
  next
    case False
    then have tw: "takeWhile is_digit unsigned = []" "dropWhile is_digit unsigned = c # cs"
      using Cons by simp_all
    show ?thesis
      using False Cons
      by (cases cs) (auto simp: Let_def tw is_digit_def)
  qed
qed

lemma strip_sign_eq:
  "strip_sign t = (if take 1 t = ''-'' \<or> take 1 t = ''+'' then drop 1 t else t)"
  by (cases t) auto

lemma parseFloat_NaN_iff: "parseFloat s = NaN \<longleftrightarrow> no_numeric_prefix s"
proof -
  let ?t = "dropWhile is_ws s"
  let ?u = "strip_sign ?t"
  have inf: "take 8 ?u = ''Infinity'' \<Longrightarrow> starts_unsigned_literal ?u"
    by (cases ?u) auto
  show ?thesis
    unfolding parseFloat_def no_numeric_prefix_def Let_def strip_sign_eq [symmetric]
    using parseFloat_unsigned_NaN [of ?u ?t "if take 1 ?t = ''-'' then NegInfinity else PosInfinity", unfolded Let_def] inf
    by (auto split: if_splits)
qed

lemma parseFloat_digits:
  assumes "s \<noteq> []" and "\<forall>c \<in> set s. is_digit c"
  shows "parseFloat s = Num (of_nat (digits_val s))"
proof -
  obtain c cs where s: "s = c # cs" using assms(1) by (cases s) auto
  with assms(2) have "is_digit c" by simp
  note c = is_digit_cases [OF this]
  have tw: "takeWhile is_digit s = s" using assms(2) by (simp add: takeWhile_eq_all_conv)
  have dw: "dropWhile is_digit s = []" using assms(2) by simp
  have trimmed: "dropWhile is_ws s = s" using c s by simp
  have t1: "take (Suc 0) s = [c]" using s by simp
  have inf: "take 8 s \<noteq> ''Infinity''" using c s by auto
  show ?thesis
    using c assms(1) inf
    by (simp add: parseFloat_def Let_def trimmed t1 tw dw exponent_part_def scale10_def)
qed

subsection \<open>One grant\<close>

lemma collectWalletBalances_frame:
  "logs (snd (collectWalletBalances svc ownerType grant w)) = logs w"
  "unhandled (snd (collectWalletBalances svc ownerType grant w)) = unhandled w"
  by (cases ownerType;
      simp add: collectWalletBalances_CUSTODIAL collectWalletBalances_MANAGED retrieveFeesLimit_eq
        called_simps split: sum.splits)+

lemma collectWalletBalances_fst:
  "fst (collectWalletBalances svc ownerType grant w) = fst (collectWalletBalances svc ownerType grant w')"
  by (cases ownerType;
      simp add: collectWalletBalances_CUSTODIAL collectWalletBalances_MANAGED retrieveFeesLimit_eq
        split: sum.splits)

lemma topUpForGrant_eq:
  "topUpForGrant svc ownerType grant w =
     (case collectWalletBalances svc ownerType grant w of
        (Inl e, w1) \<Rightarrow> (Inl e, w1)
      | (Inr balances, w1) \<Rightarrow>
          (Inr (), logged (RETRIEVING_DRAINING_DEPLOYMENTS (owner_of ownerType grant))
                     (logged (BALANCES_COLLECTED (owner_of ownerType grant) (grantee grant) balances) w1)))"
  by (simp add: topUpForGrant_def retrieveDrainingDeployments_def owner_of_def Let_def
        split: prod.splits sum.splits)

lemma topUpForGrant_fst:
  "fst (topUpForGrant svc ownerType grant w) =
     (case fst (collectWalletBalances svc ownerType grant w) of Inl e \<Rightarrow> Inl e | Inr b \<Rightarrow> Inr ())"
  by (cases "collectWalletBalances svc ownerType grant w")
     (simp add: topUpForGrant_eq split: sum.splits)

lemma topUpForGrant_logs:
  "logs (snd (topUpForGrant svc ownerType grant w)) =
     logs w @
       (case fst (collectWalletBalances svc ownerType grant w) of
          Inl e \<Rightarrow> []
        | Inr b \<Rightarrow> [BALANCES_COLLECTED (owner_of ownerType grant) (grantee grant) b,
                    RETRIEVING_DRAINING_DEPLOYMENTS (owner_of ownerType grant)])"
  using collectWalletBalances_frame(1) [of svc ownerType grant w]
  by (cases "collectWalletBalances svc ownerType grant w")
     (auto simp: topUpForGrant_eq logged_simps split: sum.splits)

lemma topUpForGrant_unhandled:
  "unhandled (snd (topUpForGrant svc ownerType grant w)) = unhandled w"
  using collectWalletBalances_frame(2) [of svc ownerType grant w]
  by (cases "collectWalletBalances svc ownerType grant w")
     (auto simp: topUpForGrant_eq logged_simps split: sum.splits)

lemma execWithErrorHandler_passed:
  assumes "fst (cb w) = Inr u"
  shows "execWithErrorHandler svc cb w = (Inr (), snd (cb w))"
  using assms
  by (cases "cb w") (simp add: execWithErrorHandler_def)

lemma execWithErrorHandler_reported:
  assumes "fst (cb w) = Inl e" and "report_of svc e = Some (ev, sentryEventId, st)"
  shows "execWithErrorHandler svc cb w =
           (Inr (), logged (TOP_UP_FAILED st sentryEventId) (called (CaptureEvent ev) (snd (cb w))))"
  using assms
  by (cases "cb w")
     (auto simp: execWithErrorHandler_def report_of_def Let_def split: sum.splits)

lemma execWithErrorHandler_rethrown:
  assumes "fst (cb w) = Inl e" and "report_of svc e = None"
  shows "isl (fst (execWithErrorHandler svc cb w))"
    and "logs (snd (execWithErrorHandler svc cb w)) = logs (snd (cb w))"
  using assms
  by (cases "cb w";
      auto simp: execWithErrorHandler_def report_of_def Let_def called_simps split: sum.splits)+

lemma execWithErrorHandler_unhandled:
  "unhandled (snd (execWithErrorHandler svc cb w)) = unhandled (snd (cb w))"
  by (cases "cb w")
     (auto simp: execWithErrorHandler_def Let_def called_simps logged_simps split: sum.splits)

lemma execWithErrorHandler_logs:
  "logs (snd (execWithErrorHandler svc cb w)) =
     logs (snd (cb w)) @
       (case fst (cb w) of
          Inr u \<Rightarrow> []
        | Inl e \<Rightarrow> (case report_of svc e of
                      None \<Rightarrow> []
                    | Some (ev, sentryEventId, st) \<Rightarrow> [TOP_UP_FAILED st sentryEventId]))"
proof (cases "fst (cb w)")
  case (Inr u)
  from execWithErrorHandler_passed [of cb w u svc, OF this] Inr show ?thesis by simp
next
  case (Inl e)
  show ?thesis
  proof (cases "report_of svc e")
    case None
    from execWithErrorHandler_rethrown(2) [of cb w e svc, OF Inl None] Inl None
    show ?thesis by simp
  next
    case (Some r)
    obtain ev sentryEventId st where r: "r = (ev, sentryEventId, st)" by (cases r) auto
    from execWithErrorHandler_reported [of cb w e svc ev sentryEventId st] Inl Some r
    show ?thesis by (simp add: logged_simps called_simps)
  qed
qed

lemma execWithErrorHandler_policy_records:
  "policy_records (snd (execWithErrorHandler svc cb w)) = policy_records (snd (cb w))"
  by (simp add: policy_records_def execWithErrorHandler_logs split: sum.splits option.splits)

lemma topUpForGrant_fst_any:
  "fst (topUpForGrant svc ownerType grant w) = fst (topUpForGrant svc ownerType grant w')"
  using collectWalletBalances_fst [of svc ownerType grant w w']
  by (simp add: topUpForGrant_fst)

lemma topUpForGrant_failed_logs:
  "fst (topUpForGrant svc ownerType grant w) = Inl e \<Longrightarrow>
     logs (snd (topUpForGrant svc ownerType grant w)) = logs w"
  by (simp add: topUpForGrant_logs topUpForGrant_fst split: sum.splits)

lemma grant_logs_records:
  "logs (snd (execWithErrorHandler svc (topUpForGrant svc ownerType grant) w)) =
     logs w @ grant_records svc ownerType grant"
proof -
  have f: "fst (topUpForGrant svc ownerType grant w) = fst (topUpForGrant svc ownerType grant empty_world)"
    by (rule topUpForGrant_fst_any)
  have c: "fst (collectWalletBalances svc ownerType grant w)
             = fst (collectWalletBalances svc ownerType grant empty_world)"
    by (rule collectWalletBalances_fst)
  have e: "logs empty_world = []" by (simp add: empty_world_def)
  show ?thesis
    unfolding grant_records_def execWithErrorHandler_logs topUpForGrant_logs
    using f c e by simp
qed

lemma grant_settles:
  assumes "reportable svc ownerType grant"
  shows "fst (execWithErrorHandler svc (topUpForGrant svc ownerType grant) w) = Inr ()"
    and "completions (snd (execWithErrorHandler svc (topUpForGrant svc ownerType grant) w))
           = Suc (completions w)"
proof -
  have f: "fst (topUpForGrant svc ownerType grant w) = fst (topUpForGrant svc ownerType grant empty_world)"
    by (rule topUpForGrant_fst_any)
  show "fst (execWithErrorHandler svc (topUpForGrant svc ownerType grant) w) = Inr ()"
  proof (cases "fst (topUpForGrant svc ownerType grant w)")
    case (Inr u)
    from execWithErrorHandler_passed [of "topUpForGrant svc ownerType grant" w u svc, OF this]
    show ?thesis by simp
  next
    case (Inl e)
    with f have "fst (topUpForGrant svc ownerType grant empty_world) = Inl e" by simp
    with assms obtain r where "report_of svc e = Some r"
      by (auto simp: reportable_def)
    then obtain ev sentryEventId st where "report_of svc e = Some (ev, sentryEventId, st)"
      by (cases r) auto
    from execWithErrorHandler_reported [of "topUpForGrant svc ownerType grant" w e svc, OF Inl this]
    show ?thesis by simp
  qed
  show "completions (snd (execWithErrorHandler svc (topUpForGrant svc ownerType grant) w))
           = Suc (completions w)"
  proof (cases "fst (topUpForGrant svc ownerType grant w)")
    case (Inr u)
    then show ?thesis
      by (auto simp: completions_def execWithErrorHandler_logs topUpForGrant_logs topUpForGrant_fst
            split: sum.splits)
  next
    case (Inl e)
    with f have "fst (topUpForGrant svc ownerType grant empty_world) = Inl e" by simp
    with assms obtain r where "report_of svc e = Some r"
      by (auto simp: reportable_def)
    then show ?thesis using Inl
      by (cases r)
         (auto simp: completions_def execWithErrorHandler_logs topUpForGrant_failed_logs)
  qed
qed

lemma grant_policy_records:
  "policy_records (snd (execWithErrorHandler svc (topUpForGrant svc ownerType grant) w)) = policy_records w"
  by (simp add: execWithErrorHandler_policy_records)
     (simp add: policy_records_def topUpForGrant_logs split: sum.splits)

subsection \<open>A page, the pagination, a run\<close>

lemma promise_all_fulfilled:
  assumes "\<forall>p \<in> set ps. \<forall>w. fst (p w) = Inr ()"
  shows "fst (promise_all ps w) = Inr (replicate (length ps) ())"
  using assms
proof (induction ps arbitrary: w)
  case Nil
  then show ?case by simp
next
  case (Cons p ps)
  have p: "fst (p w) = Inr ()" using Cons.prems by simp
  have ps: "fst (promise_all ps (snd (p w))) = Inr (replicate (length ps) ())"
    using Cons.IH Cons.prems by simp
  show ?case using p ps
    by (cases "p w"; cases "promise_all ps (snd (p w))") simp
qed

lemma promise_all_snd:
  "snd (promise_all (p # ps) w) = snd (promise_all ps (snd (p w)))"
  by (cases "p w"; cases "promise_all ps (snd (p w))") (simp split: sum.splits)

lemma promise_all_preserves:
  assumes "\<forall>p \<in> set ps. \<forall>w. obs (snd (p w)) = obs w"
  shows "obs (snd (promise_all ps w)) = obs w"
  using assms
  by (induction ps arbitrary: w) (simp_all add: promise_all_snd del: promise_all.simps(2))

lemma promise_all_completions:
  assumes "\<forall>p \<in> set ps. \<forall>w. completions (snd (p w)) = Suc (completions w)"
  shows "completions (snd (promise_all ps w)) = completions w + length ps"
  using assms
  by (induction ps arbitrary: w) (simp_all add: promise_all_snd del: promise_all.simps(2))

lemma processPage_Cons:
  "snd (processPage svc ownerType (g # grants) w) =
     snd (processPage svc ownerType grants
            (snd (execWithErrorHandler svc (topUpForGrant svc ownerType g) w)))"
  by (simp add: processPage_def promise_all_snd del: promise_all.simps(2))

lemma processPage_logs:
  "logs (snd (processPage svc ownerType grants w)) =
     logs w @ concat (map (grant_records svc ownerType) grants)"
proof (induction grants arbitrary: w)
  case Nil
  then show ?case by (simp add: processPage_def)
next
  case (Cons g grants)
  then show ?case by (simp add: processPage_Cons grant_logs_records)
qed

lemma processPage_records:
  "mset (logs (snd (processPage svc ownerType grants w))) =
     mset (logs w) + (\<Sum>g\<leftarrow>grants. mset (grant_records svc ownerType g))"
  unfolding processPage_logs
  by (induction grants) simp_all

lemma processPage_settles:
  assumes "list_all (reportable svc ownerType) grants"
  shows "fst (processPage svc ownerType grants w) = Inr (replicate (length grants) ())"
    and "completions (snd (processPage svc ownerType grants w)) = completions w + length grants"
proof -
  let ?ps = "map (\<lambda>grant. execWithErrorHandler svc (topUpForGrant svc ownerType grant)) grants"
  have "\<forall>p \<in> set ?ps. \<forall>w. fst (p w) = Inr ()"
    using assms by (auto simp: list_all_iff grant_settles(1))
  from promise_all_fulfilled [OF this, of w]
  show "fst (processPage svc ownerType grants w) = Inr (replicate (length grants) ())"
    by (simp add: processPage_def)
  have "\<forall>p \<in> set ?ps. \<forall>w. completions (snd (p w)) = Suc (completions w)"
    using assms by (auto simp: list_all_iff grant_settles(2))
  from promise_all_completions [OF this, of w]
  show "completions (snd (processPage svc ownerType grants w)) = completions w + length grants"
    by (simp add: processPage_def)
qed

lemma processPage_policy_records:
  "policy_records (snd (processPage svc ownerType grants w)) = policy_records w"
  using promise_all_preserves
    [of "map (\<lambda>grant. execWithErrorHandler svc (topUpForGrant svc ownerType grant)) grants"
        policy_records w]
  by (auto simp: processPage_def grant_policy_records)

lemma completions_called: "completions (called c w) = completions w"
  by (simp add: completions_def called_simps)

lemma policy_records_called: "policy_records (called c w) = policy_records w"
  by (simp add: policy_records_def called_simps)

lemma paginate_pages_all_fetched:
  assumes "list_all (list_all (reportable svc ownerType)) pages"
  shows "fst (paginate_pages c (map Inr pages) (processPage svc ownerType) w) = Inr ()
   \<and> completions (snd (paginate_pages c (map Inr pages) (processPage svc ownerType) w))
       = completions w + sum_list (map length pages)"
  using assms
proof (induction pages arbitrary: w)
  case Nil
  then show ?case by simp
next
  case (Cons grants pages)
  then have g: "list_all (reportable svc ownerType) grants"
    and p: "list_all (list_all (reportable svc ownerType)) pages" by simp_all
  obtain w1 where w1: "processPage svc ownerType grants (called c w) = (Inr (replicate (length grants) ()), w1)"
    using processPage_settles(1) [OF g, of "called c w"]
    by (cases "processPage svc ownerType grants (called c w)") simp
  have "completions w1 = completions w + length grants"
    using processPage_settles(2) [OF g, of "called c w"] w1
    by (simp add: completions_called)
  then show ?case using Cons.IH [OF p, of w1] w1 by simp
qed

lemma paginate_pages_policy_records:
  "policy_records (snd (paginate_pages c pages (processPage svc ownerType) w)) = policy_records w"
proof (induction pages arbitrary: w)
  case Nil
  then show ?case by simp
next
  case (Cons page pages)
  show ?case
  proof (cases page)
    case (Inl e)
    then show ?thesis by (simp add: policy_records_called)
  next
    case (Inr grants)
    obtain r w1 where w1: "processPage svc ownerType grants (called c w) = (r, w1)"
      by (cases "processPage svc ownerType grants (called c w)") simp
    have "policy_records w1 = policy_records w"
      using processPage_policy_records [of svc ownerType grants "called c w"] w1
      by (simp add: policy_records_called)
    then show ?thesis using Cons.IH [of w1] w1 Inr by (cases r) simp_all
  qed
qed

lemma topUpCustodialWallet_policy_records:
  "policy_records (snd (topUpCustodialWallet svc wlt w)) = policy_records w"
  by (simp add: topUpCustodialWallet_def paginateDeploymentGrants_def paginate_pages_policy_records
        policy_records_called split: sum.splits)

lemma topUpDeployments_policy_records:
  "policy_records (snd (topUpDeployments svc w)) = policy_records w"
proof -
  let ?ps = "map (topUpCustodialWallet svc) [uaktMasterWalletService, usdtMasterWalletService]"
  have c: "policy_records (snd (promise_all ?ps w)) = policy_records w"
    using promise_all_preserves [of ?ps policy_records w]
    by (auto simp: topUpCustodialWallet_policy_records)
  show ?thesis
    using c
    by (cases "promise_all ?ps w")
       (auto simp: topUpDeployments_def paginateDeploymentGrants_def paginate_pages_policy_records
          policy_records_called split: sum.splits)
qed

lemma topUpCustodialWallet_settles:
  assumes "getFirstAddress svc wlt = Inr address"
    and "grantPages svc side_grantee address CONCURRENCY = map Inr pages"
    and "list_all (list_all (reportable svc CUSTODIAL)) pages"
  shows "fst (topUpCustodialWallet svc wlt w) = Inr ()"
    and "completions (snd (topUpCustodialWallet svc wlt w)) = completions w + sum_list (map length pages)"
  using assms(1,2)
    paginate_pages_all_fetched [OF assms(3), of "FetchGrantsPage side_grantee address CONCURRENCY"
      "called (GetFirstAddress wlt) w"]
  by (simp_all add: topUpCustodialWallet_def paginateDeploymentGrants_def completions_called)

lemma topUpDeployments_settles:
  assumes "getFirstAddress svc uaktMasterWalletService = Inr a1"
    and "grantPages svc side_grantee a1 CONCURRENCY = map Inr ps1"
    and "list_all (list_all (reportable svc CUSTODIAL)) ps1"
    and "getFirstAddress svc usdtMasterWalletService = Inr a2"
    and "grantPages svc side_grantee a2 CONCURRENCY = map Inr ps2"
    and "list_all (list_all (reportable svc CUSTODIAL)) ps2"
    and "getFirstAddress svc managedMasterWalletService = Inr a3"
    and "grantPages svc side_granter a3 CONCURRENCY = map Inr ps3"
    and "list_all (list_all (reportable svc MANAGED)) ps3"
  shows "fst (topUpDeployments svc w) = Inr ()
     \<and> completions (snd (topUpDeployments svc w))
         = completions w + sum_list (map length ps1) + sum_list (map length ps2)
             + sum_list (map length ps3)"
proof -
  let ?u = "topUpCustodialWallet svc uaktMasterWalletService"
  let ?v = "topUpCustodialWallet svc usdtMasterWalletService"
  obtain w1 where w1: "?u w = (Inr (), w1)"
    using topUpCustodialWallet_settles(1) [OF assms(1-3), of w] by (cases "?u w") simp
  have c1: "completions w1 = completions w + sum_list (map length ps1)"
    using topUpCustodialWallet_settles(2) [OF assms(1-3), of w] w1 by simp
  obtain w2 where w2: "?v w1 = (Inr (), w2)"
    using topUpCustodialWallet_settles(1) [OF assms(4-6), of w1] by (cases "?v w1") simp
  have c2: "completions w2 = completions w1 + sum_list (map length ps2)"
    using topUpCustodialWallet_settles(2) [OF assms(4-6), of w1] w2 by simp
  have pa: "promise_all [?u, ?v] w = (Inr [(), ()], w2)"
    using w1 w2 by simp
  show ?thesis
    using pa c1 c2 assms(7,8)
      paginate_pages_all_fetched [OF assms(9), of "FetchGrantsPage side_granter a3 CONCURRENCY"
        "called (GetFirstAddress managedMasterWalletService) w2"]
    by (simp add: topUpDeployments_def paginateDeploymentGrants_def completions_called)
qed

subsection \<open>Runs on the example ledger\<close>

lemmas parse_defs = parseFloat_def is_ws_def is_digit_def digits_val_def digit_val_def
  exponent_part_def scale10_def Let_def

lemmas eval_defs = collectWalletBalances_def retrieveFeesLimit_def sides_of_def called_def logged_def
  example_services_def grant_of_def empty_world_def UNLIMITED_FEES_MANAGED_BALANCE_def
  parseFloat_def is_ws_def is_digit_def digits_val_def digit_val_def exponent_part_def scale10_def
  Let_def grant_denom_def grant_amount_def

text \<open>The end-to-end scenario of the specification.\<close>

lemma scenario:
  "fst (collectWalletBalances (example_services ''5'' ''42'') CUSTODIAL
          (grant_of ''wallet1'' ''owner1'' ''uakt'' ''500'') empty_world) =
     Inr \<lparr>denom = ''uakt'', feesLimit = Num 5, deploymentLimit = Num 500, balance = Num 42,
          isManaged = False\<rparr>"
  by (simp add: eval_defs)

text \<open>
  Claim C3 fails on the code: with the grant amount \<^verbatim>\<open>abc\<close> and the balance amount
  \<^verbatim>\<open>n/a\<close>, \<^verbatim>\<open>collectWalletBalances\<close> returns a \<^verbatim>\<open>Balances\<close> record, whose
  \<^verbatim>\<open>deploymentLimit\<close> and \<^verbatim>\<open>balance\<close> are \<^verbatim>\<open>NaN\<close>.
\<close>

theorem malformed_amount_counterexample:
  "fst (collectWalletBalances (example_services ''5'' ''n/a'') CUSTODIAL
          (grant_of ''wallet1'' ''owner1'' ''uakt'' ''abc'') empty_world) =
     Inr \<lparr>denom = ''uakt'', feesLimit = Num 5, deploymentLimit = NaN, balance = NaN,
          isManaged = False\<rparr>"
  by (simp add: eval_defs)

text \<open>
  Claim C8 fails on the code: a fee allowance whose entry for the denom has the amount
  \<^verbatim>\<open>-5\<close> gives a record with the negative \<^verbatim>\<open>feesLimit\<close> \<open>- 5\<close>.
\<close>

theorem negative_feesLimit_counterexample:
  "fst (collectWalletBalances (example_services ''-5'' ''42'') CUSTODIAL
          (grant_of ''wallet1'' ''owner1'' ''uakt'' ''500'') empty_world) =
     Inr \<lparr>denom = ''uakt'', feesLimit = Num (- 5), deploymentLimit = Num 500, balance = Num 42,
          isManaged = False\<rparr>
   \<and> is_negative (Num (- 5))"
  by (simp add: eval_defs is_negative_def)



text \<open>
  Claim C3, amended. A non-numeric amount does not make \<^verbatim>\<open>collectWalletBalances\<close> fail:
  when the fee-allowance lookup (for a custodial owner) and the balance fetch return, it
  returns a \<^verbatim>\<open>Balances\<close> record whose \<^verbatim>\<open>deploymentLimit\<close> and \<^verbatim>\<open>balance\<close> are
  \<^verbatim>\<open>parseFloat\<close> of the two strings, \<^verbatim>\<open>NaN\<close> exactly for a string with no numeric prefix.
\<close>

theorem amounts_parse_without_failure:
  assumes "ownerType = CUSTODIAL \<longrightarrow>
             getFeeAllowanceForGranterAndGrantee svc (granter grant) (grantee grant) = Inr fa"
    and "getBalance svc (sides_of ownerType grant ! 0) (grant_denom grant) = Inr bal"
  shows "\<exists>b. fst (collectWalletBalances svc ownerType grant w) = Inr b
           \<and> deploymentLimit b = parseFloat (grant_amount grant)
           \<and> balance b = parseFloat (coin_amount bal)
           \<and> (deploymentLimit b = NaN \<longleftrightarrow> no_numeric_prefix (grant_amount grant))
           \<and> (balance b = NaN \<longleftrightarrow> no_numeric_prefix (coin_amount bal))"
  using assms
  by (cases ownerType)
     (auto simp: collectWalletBalances_CUSTODIAL collectWalletBalances_MANAGED retrieveFeesLimit_eq
        sides_of_simps parseFloat_NaN_iff)

text \<open>Witness for C3 as amended: the grant amount \<^verbatim>\<open>-abc\<close>, the balance amount a lone point.\<close>

theorem amounts_parse_without_failure_witness:
  "\<exists>b. fst (collectWalletBalances (example_services ''5'' ''.'') CUSTODIAL
               (grant_of ''wallet1'' ''owner1'' ''uakt'' ''-abc'') empty_world) = Inr b
         \<and> deploymentLimit b = NaN \<and> balance b = NaN"
  using amounts_parse_without_failure [of CUSTODIAL "example_services ''5'' ''.''"
      "grant_of ''wallet1'' ''owner1'' ''uakt'' ''-abc''"
      "FeeAllowance (Allowance [Coin ''uakt'' ''5''])" "Coin ''uakt'' ''.''" empty_world]
  by (auto simp: example_services_def grant_of_def sides_of_def grant_denom_def grant_amount_def
        no_numeric_prefix_def is_ws_def is_digit_def)

text \<open>Witness for C5: a managed grant on the example ledger.\<close>

theorem managed_skips_fee_lookup_witness:
  "fst (collectWalletBalances (example_services ''5'' ''42'') MANAGED
          (grant_of ''master'' ''owner1'' ''uakt'' ''500'') empty_world) =
     Inr \<lparr>denom = ''uakt'', feesLimit = Num 1000000, deploymentLimit = Num 500, balance = Num 42,
          isManaged = True\<rparr>
   \<and> fee_lookups (snd (collectWalletBalances (example_services ''5'' ''42'') MANAGED
          (grant_of ''master'' ''owner1'' ''uakt'' ''500'') empty_world)) = 0"
  using managed_skips_fee_lookup [of "example_services ''5'' ''42''" "grant_of ''master'' ''owner1'' ''uakt'' ''500''"
      empty_world]
  by (simp add: eval_defs fee_lookups_def)

text \<open>Witness for C6: a grant in \<^verbatim>\<open>uusdc\<close> against a fee allowance in \<^verbatim>\<open>uakt\<close>.\<close>

theorem custodial_no_matching_denom_witness:
  "fst (collectWalletBalances (example_services ''5'' ''42'') CUSTODIAL
          (grant_of ''wallet1'' ''owner1'' ''uusdc'' ''500'') empty_world) =
     Inr \<lparr>denom = ''uusdc'', feesLimit = Num 0, deploymentLimit = Num 500, balance = Num 42,
          isManaged = False\<rparr>"
proof -
  have p: "parseFloat ''500'' = Num 500" "parseFloat ''42'' = Num 42" by (simp_all add: parse_defs)
  show ?thesis
    using custodial_no_matching_denom [of "example_services ''5'' ''42''" "grant_of ''wallet1'' ''owner1'' ''uusdc'' ''500''"
        "FeeAllowance (Allowance [Coin ''uakt'' ''5''])" empty_world] p
    by (simp add: example_services_def grant_of_def grant_denom_def grant_amount_def)
qed

text \<open>
  Claim C8, amended. In a record that \<^verbatim>\<open>collectWalletBalances\<close> returns, \<^verbatim>\<open>feesLimit\<close>
  is the unlimited sentinel for a managed owner; for a custodial owner it is \<^verbatim>\<open>parseFloat\<close>
  of the amount of the first spend-limit entry of the fee allowance for the grant's denom, or 0
  when there is no such entry. It is always a number; it is neither \<^verbatim>\<open>NaN\<close> nor negative
  whenever that amount is a string of decimal digits.
\<close>

theorem feesLimit_origin:
  assumes "fst (collectWalletBalances svc ownerType grant w) = Inr b"
  shows "(ownerType = MANAGED \<longrightarrow> isManaged b \<and> feesLimit b = UNLIMITED_FEES_MANAGED_BALANCE)
       \<and> (ownerType = CUSTODIAL \<longrightarrow> \<not> isManaged b \<and>
            (\<exists>fa. getFeeAllowanceForGranterAndGrantee svc (granter grant) (grantee grant) = Inr fa
               \<and> feesLimit b =
                   (case find (\<lambda>limit. coin_denom limit = grant_denom grant)
                           (fee_spend_limit (allowance fa)) of
                      None \<Rightarrow> Num 0
                    | Some l \<Rightarrow> parseFloat (coin_amount l))
               \<and> ((case find (\<lambda>limit. coin_denom limit = grant_denom grant)
                           (fee_spend_limit (allowance fa)) of
                      None \<Rightarrow> True
                    | Some l \<Rightarrow> unsigned_decimal (coin_amount l))
                    \<longrightarrow> feesLimit b \<noteq> NaN \<and> \<not> is_negative (feesLimit b))))
       \<and> \<not> is_negative UNLIMITED_FEES_MANAGED_BALANCE"
proof (cases ownerType)
  case MANAGED
  then show ?thesis using assms
    by (auto simp: collectWalletBalances_MANAGED is_negative_def UNLIMITED_FEES_MANAGED_BALANCE_def
          split: sum.splits)
next
  case CUSTODIAL
  have dec: "parseFloat s \<noteq> NaN \<and> \<not> is_negative (parseFloat s)" if "unsigned_decimal s" for s
    using that parseFloat_digits [of s]
    by (simp add: unsigned_decimal_def list_all_iff is_negative_def)
  have z: "\<not> is_negative (Num 0)" "\<not> is_negative UNLIMITED_FEES_MANAGED_BALANCE"
    by (simp_all add: is_negative_def UNLIMITED_FEES_MANAGED_BALANCE_def)
  show ?thesis using assms CUSTODIAL
    by (auto simp: collectWalletBalances_CUSTODIAL retrieveFeesLimit_eq dec z
          split: sum.splits option.splits)
qed

text \<open>Witness for C8 as amended: the scenario of the specification, with the fee allowance \<^verbatim>\<open>5\<close>.\<close>

theorem feesLimit_origin_witness:
  "fst (collectWalletBalances (example_services ''5'' ''42'') CUSTODIAL
          (grant_of ''wallet1'' ''owner1'' ''uakt'' ''500'') empty_world) =
     Inr \<lparr>denom = ''uakt'', feesLimit = Num 5, deploymentLimit = Num 500, balance = Num 42,
          isManaged = False\<rparr>
   \<and> \<not> is_negative (Num 5)"
proof -
  have r: "fst (collectWalletBalances (example_services ''5'' ''42'') CUSTODIAL
          (grant_of ''wallet1'' ''owner1'' ''uakt'' ''500'') empty_world) =
     Inr \<lparr>denom = ''uakt'', feesLimit = Num 5, deploymentLimit = Num 500, balance = Num 42,
          isManaged = False\<rparr>"
    by (simp add: eval_defs)
  have p: "parseFloat ''5'' = Num 5" by (simp add: parse_defs)
  have "\<not> is_negative (Num 5)"
    using feesLimit_origin [OF r]
    by (simp add: example_services_def grant_of_def grant_denom_def unsigned_decimal_def is_digit_def p)
  with r show ?thesis by simp
qed

lemma topUpForGrant_policy_records:
  "policy_records (snd (topUpForGrant svc ownerType grant w)) = policy_records w"
  by (simp add: policy_records_def topUpForGrant_logs split: sum.splits)

lemma topUpForGrant_calls:
  "calls (snd (topUpForGrant svc ownerType grant w)) = calls (snd (collectWalletBalances svc ownerType grant w))"
  by (cases "collectWalletBalances svc ownerType grant w")
     (auto simp: topUpForGrant_eq logged_simps split: sum.splits)

text \<open>
  A rejection of a promise that is not awaited does not come back to the caller. The
  per-deployment promises of \<^verbatim>\<open>topUpForGrant\<close> are of this kind; as shipped there are none.
\<close>

lemma not_awaited_rejection:
  "fst (p w) = Inl e \<Longrightarrow> unhandled (not_awaited p w) = unhandled (snd (p w)) @ [e]"
  by (cases "p w") (simp add: not_awaited_def)



lemmas run_defs = topUpForGrant_def retrieveDrainingDeployments_def execWithErrorHandler_def
  processPage_def unreachable_def completions_def report_of_def reportable_def

text \<open>
  Claim C1 fails on the code: the \<^verbatim>\<open>catch\<close> block can throw. With an error sink whose
  \<^verbatim>\<open>captureEvent\<close> throws, the boundary rejects for the grant whose balance is unreachable,
  so does \<^verbatim>\<open>Promise.all\<close> in the page callback, the pagination ends there, and of the two grants of the two pages
  none is through. With a balance fetch that throws \<^verbatim>\<open>null\<close>, reading \<^verbatim>\<open>error.stack\<close>
  throws a \<^verbatim>\<open>TypeError\<close> out of the boundary.
\<close>

theorem rethrown_in_catch_counterexample:
  "fst (execWithErrorHandler sink_down_services
          (topUpForGrant sink_down_services CUSTODIAL (grant_of ''offline'' ''owner2'' ''uakt'' ''10'')) empty_world) = Inl sink_down
   \<and> fst (processPage sink_down_services CUSTODIAL
            [grant_of ''offline'' ''owner2'' ''uakt'' ''10''] empty_world) = Inl sink_down
   \<and> fst (paginate_pages (FetchGrantsPage side_grantee ''master'' 10)
            [Inr [grant_of ''offline'' ''owner2'' ''uakt'' ''10''], Inr [grant_of ''wallet3'' ''owner3'' ''uakt'' ''7''] ]
            (processPage sink_down_services CUSTODIAL) empty_world) = Inl sink_down
   \<and> completions (snd (paginate_pages (FetchGrantsPage side_grantee ''master'' 10)
            [Inr [grant_of ''offline'' ''owner2'' ''uakt'' ''10''], Inr [grant_of ''wallet3'' ''owner3'' ''uakt'' ''7''] ]
            (processPage sink_down_services CUSTODIAL) empty_world)) = 0
   \<and> fst (execWithErrorHandler null_thrower_services
          (topUpForGrant null_thrower_services CUSTODIAL (grant_of ''wallet1'' ''owner1'' ''uakt'' ''500'')) empty_world)
       = Inl stack_TypeError"
  by (simp add: eval_defs run_defs sink_down_services_def null_thrower_services_def)

text \<open>
  Claim C1, amended. A grant whose processing throws an error that the \<^verbatim>\<open>catch\<close> block
  can report (\<^verbatim>\<open>toEvent\<close>, \<^verbatim>\<open>captureEvent\<close> and \<^verbatim>\<open>logger.error\<close> return for it and it is
  not \<^verbatim>\<open>null\<close> or \<^verbatim>\<open>undefined\<close>) is caught at the per-grant boundary: the boundary returns,
  the error is handed to the error sink and logged as \<^verbatim>\<open>TOP_UP_FAILED\<close>. When every
  failing grant of a page is of that kind, \<^verbatim>\<open>Promise.all\<close> resolves with one value per grant,
  the number of grants that are through grows by the size of the page, and the log gains the
  records of each grant, those it leaves when processed alone. When that holds of all pages of
  the three wallets and every address and page is fetched, the run returns and the number of
  grants that are through grows by the number of grants of all pages.
\<close>

theorem per_grant_failure_isolated:
  "(fst (topUpForGrant svc ownerType g w) = Inl e \<and> report_of svc e = Some (ev, sentryEventId, st)
      \<longrightarrow> fst (execWithErrorHandler svc (topUpForGrant svc ownerType g) w) = Inr ()
        \<and> calls (snd (execWithErrorHandler svc (topUpForGrant svc ownerType g) w))
            = calls (snd (topUpForGrant svc ownerType g w)) @ [CaptureEvent ev]
        \<and> logs (snd (execWithErrorHandler svc (topUpForGrant svc ownerType g) w))
            = logs w @ [TOP_UP_FAILED st sentryEventId])
   \<and> (list_all (reportable svc ownerType) grants
      \<longrightarrow> fst (processPage svc ownerType grants w) = Inr (replicate (length grants) ())
        \<and> completions (snd (processPage svc ownerType grants w)) = completions w + length grants
        \<and> mset (logs (snd (processPage svc ownerType grants w)))
            = mset (logs w) + (\<Sum>g\<leftarrow>grants. mset (grant_records svc ownerType g)))
   \<and> (getFirstAddress svc uaktMasterWalletService = Inr a1
        \<and> grantPages svc side_grantee a1 CONCURRENCY = map Inr ps1
        \<and> list_all (list_all (reportable svc CUSTODIAL)) ps1
        \<and> getFirstAddress svc usdtMasterWalletService = Inr a2
        \<and> grantPages svc side_grantee a2 CONCURRENCY = map Inr ps2
        \<and> list_all (list_all (reportable svc CUSTODIAL)) ps2
        \<and> getFirstAddress svc managedMasterWalletService = Inr a3
        \<and> grantPages svc side_granter a3 CONCURRENCY = map Inr ps3
        \<and> list_all (list_all (reportable svc MANAGED)) ps3
      \<longrightarrow> fst (topUpDeployments svc w) = Inr ()
        \<and> completions (snd (topUpDeployments svc w))
            = completions w + sum_list (map length ps1) + sum_list (map length ps2)
                + sum_list (map length ps3))"
proof (intro conjI impI)
  assume a: "fst (topUpForGrant svc ownerType g w) = Inl e \<and> report_of svc e = Some (ev, sentryEventId, st)"
  then have r: "fst (topUpForGrant svc ownerType g w) = Inl e"
    and s: "report_of svc e = Some (ev, sentryEventId, st)" by simp_all
  note x = execWithErrorHandler_reported [of "topUpForGrant svc ownerType g" w e svc, OF r s]
  show "fst (execWithErrorHandler svc (topUpForGrant svc ownerType g) w) = Inr ()"
    using x by simp
  show "calls (snd (execWithErrorHandler svc (topUpForGrant svc ownerType g) w))
            = calls (snd (topUpForGrant svc ownerType g w)) @ [CaptureEvent ev]"
    using x by (simp add: logged_simps called_simps)
  show "logs (snd (execWithErrorHandler svc (topUpForGrant svc ownerType g) w))
            = logs w @ [TOP_UP_FAILED st sentryEventId]"
    using x topUpForGrant_failed_logs [OF r] by (simp add: logged_simps called_simps)
next
  assume p: "list_all (reportable svc ownerType) grants"
  show "fst (processPage svc ownerType grants w) = Inr (replicate (length grants) ())"
    by (rule processPage_settles(1) [OF p])
  show "completions (snd (processPage svc ownerType grants w)) = completions w + length grants"
    by (rule processPage_settles(2) [OF p])
  show "mset (logs (snd (processPage svc ownerType grants w)))
            = mset (logs w) + (\<Sum>g\<leftarrow>grants. mset (grant_records svc ownerType g))"
    by (rule processPage_records)
next
  assume a: "getFirstAddress svc uaktMasterWalletService = Inr a1
        \<and> grantPages svc side_grantee a1 CONCURRENCY = map Inr ps1
        \<and> list_all (list_all (reportable svc CUSTODIAL)) ps1
        \<and> getFirstAddress svc usdtMasterWalletService = Inr a2
        \<and> grantPages svc side_grantee a2 CONCURRENCY = map Inr ps2
        \<and> list_all (list_all (reportable svc CUSTODIAL)) ps2
        \<and> getFirstAddress svc managedMasterWalletService = Inr a3
        \<and> grantPages svc side_granter a3 CONCURRENCY = map Inr ps3
        \<and> list_all (list_all (reportable svc MANAGED)) ps3"
  have t: "fst (topUpDeployments svc w) = Inr ()
     \<and> completions (snd (topUpDeployments svc w))
         = completions w + sum_list (map length ps1) + sum_list (map length ps2)
             + sum_list (map length ps3)"
    using a by (intro topUpDeployments_settles [of svc a1 ps1 a2 ps2 a3 ps3 w]) simp_all
  from t show "fst (topUpDeployments svc w) = Inr ()" by simp
  from t show "completions (snd (topUpDeployments svc w))
            = completions w + sum_list (map length ps1) + sum_list (map length ps2)
                + sum_list (map length ps3)" by simp
qed

text \<open>
  Witness for C1 as amended: the registry with two pages for each custodial wallet and one
  for the managed wallet, seven grants in all, two of them with an unreachable balance.
\<close>

theorem per_grant_failure_isolated_witness:
  "fst (topUpForGrant registry_services CUSTODIAL
          (grant_of ''offline'' ''uakt-wallet'' ''uakt'' ''10'') empty_world) = Inl unreachable
   \<and> logs (snd (execWithErrorHandler registry_services
          (topUpForGrant registry_services CUSTODIAL
             (grant_of ''offline'' ''uakt-wallet'' ''uakt'' ''10'')) empty_world))
       = [TOP_UP_FAILED (Some ''RegistryUnavailable: getBalance'') ''event-1'']
   \<and> fst (processPage registry_services CUSTODIAL
          [grant_of ''wallet1'' ''uakt-wallet'' ''uakt'' ''500'',
           grant_of ''offline'' ''uakt-wallet'' ''uakt'' ''10''] empty_world) = Inr [(), ()]
   \<and> fst (topUpDeployments registry_services empty_world) = Inr ()
   \<and> completions (snd (topUpDeployments registry_services empty_world)) = 7"
proof -
  let ?bad = "grant_of ''offline'' ''uakt-wallet'' ''uakt'' ''10''"
  let ?page = "[grant_of ''wallet1'' ''uakt-wallet'' ''uakt'' ''500'', ?bad]"
  let ?ps1 = "[?page, [grant_of ''wallet3'' ''uakt-wallet'' ''uakt'' ''7''] ]"
  let ?ps2 = "[ [grant_of ''wallet1'' ''usdc-wallet'' ''uakt'' ''500'',
                grant_of ''offline'' ''usdc-wallet'' ''uakt'' ''10''],
               [grant_of ''wallet3'' ''usdc-wallet'' ''uakt'' ''7''] ]"
  let ?ps3 = "[ [grant_of ''managed'' ''owner4'' ''uakt'' ''9''] ]"
  have r: "fst (topUpForGrant registry_services CUSTODIAL ?bad empty_world) = Inl unreachable"
    by (simp add: eval_defs run_defs registry_services_def)
  have s: "report_of registry_services unreachable
             = Some (SentryEvent ''top-up failed'', ''event-1'', Some ''RegistryUnavailable: getBalance'')"
    by (simp add: report_of_def registry_services_def example_services_def unreachable_def)
  have p1: "list_all (list_all (reportable registry_services CUSTODIAL)) ?ps1"
    by (simp add: eval_defs run_defs registry_services_def)
  have p2: "list_all (list_all (reportable registry_services CUSTODIAL)) ?ps2"
    by (simp add: eval_defs run_defs registry_services_def)
  have p3: "list_all (list_all (reportable registry_services MANAGED)) ?ps3"
    by (simp add: eval_defs run_defs registry_services_def)
  have pg: "list_all (reportable registry_services CUSTODIAL) ?page"
    using p1 by simp
  have a: "getFirstAddress registry_services uaktMasterWalletService = Inr ''uakt-wallet''"
    "getFirstAddress registry_services usdtMasterWalletService = Inr ''usdc-wallet''"
    "getFirstAddress registry_services managedMasterWalletService = Inr ''managed''"
    "grantPages registry_services side_grantee ''uakt-wallet'' CONCURRENCY = map Inr ?ps1"
    "grantPages registry_services side_grantee ''usdc-wallet'' CONCURRENCY = map Inr ?ps2"
    "grantPages registry_services side_granter ''managed'' CONCURRENCY = map Inr ?ps3"
    by (simp_all add: registry_services_def example_services_def)
  have z: "logs empty_world = []" "completions empty_world = 0"
    by (simp_all add: empty_world_def completions_def)
  note t = per_grant_failure_isolated [where svc = registry_services and ownerType = CUSTODIAL
      and g = ?bad and w = empty_world and e = unreachable and ev = "SentryEvent ''top-up failed''"
      and sentryEventId = "''event-1''" and st = "Some ''RegistryUnavailable: getBalance''"
      and grants = ?page and ?a1.0 = "''uakt-wallet''" and ?ps1.0 = ?ps1
      and ?a2.0 = "''usdc-wallet''" and ?ps2.0 = ?ps2
      and ?a3.0 = "''managed''" and ?ps3.0 = ?ps3]
  have l: "logs (snd (execWithErrorHandler registry_services
          (topUpForGrant registry_services CUSTODIAL ?bad) empty_world))
       = [TOP_UP_FAILED (Some ''RegistryUnavailable: getBalance'') ''event-1'']"
    using t r s z by simp
  have g: "fst (processPage registry_services CUSTODIAL ?page empty_world) = Inr [(), ()]"
    using t pg by simp
  have d: "fst (topUpDeployments registry_services empty_world) = Inr ()
     \<and> completions (snd (topUpDeployments registry_services empty_world)) = 7"
    using t a p1 p2 p3 z by simp
  from r l g d show ?thesis by simp
qed




text \<open>
  Claim C10. As shipped, \<^verbatim>\<open>retrieveDrainingDeployments\<close> returns the empty list for every
  owner. So \<^verbatim>\<open>topUpForGrant\<close> writes the balances record and the deployment-lookup record
  and calls neither policy hook, and a whole run of \<^verbatim>\<open>topUpDeployments\<close> adds no record of
  \<^verbatim>\<open>calculateTopUpAmount\<close> or \<^verbatim>\<open>validateTopUpAmount\<close> to the log: from the empty world
  there is none.
\<close>

theorem policy_never_invoked:
  "fst (retrieveDrainingDeployments owner w) = Inr []
   \<and> logs (snd (topUpForGrant svc ownerType g w)) =
       logs w @
         (case fst (collectWalletBalances svc ownerType g w) of
            Inl e \<Rightarrow> []
          | Inr b \<Rightarrow> [BALANCES_COLLECTED (owner_of ownerType g) (grantee g) b,
                      RETRIEVING_DRAINING_DEPLOYMENTS (owner_of ownerType g)])
   \<and> policy_records (snd (topUpForGrant svc ownerType g w)) = policy_records w
   \<and> policy_records (snd (topUpDeployments svc w)) = policy_records w
   \<and> policy_records (snd (topUpDeployments svc empty_world)) = []"
  by (simp add: retrieveDrainingDeployments_def topUpForGrant_logs topUpForGrant_policy_records
        topUpDeployments_policy_records)
     (simp add: policy_records_def empty_world_def)


end
